theory Spec2Isabelle
  imports Complex_Main
begin

section \<open>Landmarks\<close>

text \<open>
  \<^verbatim>\<open>detect_pose\<close> reads the landmark list produced by the pose model:
  \<^verbatim>\<open>landmarks.landmark[mp_pose.PoseLandmark.LEFT_WRIST]\<close> and so on. The joint identifiers
  are the members of the pose model's \<^verbatim>\<open>PoseLandmark\<close> enumeration; the source names ten of
  them, the others are never read.
\<close>

datatype PoseLandmark =
    NOSE
  | LEFT_EYE_INNER | LEFT_EYE | LEFT_EYE_OUTER
  | RIGHT_EYE_INNER | RIGHT_EYE | RIGHT_EYE_OUTER
  | LEFT_EAR | RIGHT_EAR
  | MOUTH_LEFT | MOUTH_RIGHT
  | LEFT_SHOULDER | RIGHT_SHOULDER
  | LEFT_ELBOW | RIGHT_ELBOW
  | LEFT_WRIST | RIGHT_WRIST
  | LEFT_PINKY | RIGHT_PINKY
  | LEFT_INDEX | RIGHT_INDEX
  | LEFT_THUMB | RIGHT_THUMB
  | LEFT_HIP | RIGHT_HIP
  | LEFT_KNEE | RIGHT_KNEE
  | LEFT_ANKLE | RIGHT_ANKLE
  | LEFT_HEEL | RIGHT_HEEL
  | LEFT_FOOT_INDEX | RIGHT_FOOT_INDEX

text \<open>
  One landmark: the source reads the attributes \<^verbatim>\<open>.x\<close> and \<^verbatim>\<open>.y\<close>; the
  visibility score is carried along and never read. Coordinates are Python floats in the
  source; here they are real numbers, so every subtraction, mean and comparison of the
  classifier is exact. Rounding and NaN are outside this model.
\<close>

record NormalizedLandmark =
  x :: real
  y :: real
  visibility :: real

text \<open>
  The landmark list, indexed by joint identifier. A joint that the list does not hold is
  \<open>None\<close>; indexing it raises, as indexing the repeated field past its end does.
\<close>

record NormalizedLandmarkList =
  landmark :: "PoseLandmark \<Rightarrow> NormalizedLandmark option"

datatype error = IndexError

definition getitem :: "(PoseLandmark \<Rightarrow> NormalizedLandmark option) \<Rightarrow> PoseLandmark
    \<Rightarrow> error + NormalizedLandmark" where
  "getitem m j = (case m j of None \<Rightarrow> Inl IndexError | Some p \<Rightarrow> Inr p)"

text \<open>Sequencing of statements that may raise: the first error is the result.\<close>

definition and_then :: "error + 'a \<Rightarrow> ('a \<Rightarrow> error + 'b) \<Rightarrow> error + 'b" where
  "and_then r f = (case r of Inl e \<Rightarrow> Inl e | Inr v \<Rightarrow> f v)"

section \<open>The classifier\<close>

text \<open>
  \<^verbatim>\<open>detect_pose\<close> of \<^verbatim>\<open>pose_detector.py\<close>, lines 55 to 111: ten lookups, three means, and
  a cascade of \<^verbatim>\<open>if ...: return\<close> statements. The conditions are copied in the order and
  with the literals of the source. Python's \<^verbatim>\<open>not a < b\<close> is \<^verbatim>\<open>not (a < b)\<close>, and
  \<^verbatim>\<open>not\<close> binds tighter than \<^verbatim>\<open>and\<close>.
\<close>

definition detect_pose :: "NormalizedLandmarkList \<Rightarrow> error + string" where
  "detect_pose landmarks =
    and_then (getitem (landmark landmarks) LEFT_WRIST) (\<lambda>left_wrist.
    and_then (getitem (landmark landmarks) RIGHT_WRIST) (\<lambda>right_wrist.
    and_then (getitem (landmark landmarks) LEFT_ELBOW) (\<lambda>left_elbow.
    and_then (getitem (landmark landmarks) RIGHT_ELBOW) (\<lambda>right_elbow.
    and_then (getitem (landmark landmarks) LEFT_SHOULDER) (\<lambda>left_shoulder.
    and_then (getitem (landmark landmarks) RIGHT_SHOULDER) (\<lambda>right_shoulder.
    and_then (getitem (landmark landmarks) LEFT_HIP) (\<lambda>left_hip.
    and_then (getitem (landmark landmarks) RIGHT_HIP) (\<lambda>right_hip.
    and_then (getitem (landmark landmarks) LEFT_KNEE) (\<lambda>left_knee.
    and_then (getitem (landmark landmarks) RIGHT_KNEE) (\<lambda>right_knee.
    let avg_shoulder_y = (y left_shoulder + y right_shoulder) / 2;
        avg_hip_y = (y left_hip + y right_hip) / 2;
        avg_knee_y = (y left_knee + y right_knee) / 2
    in
    if \<bar>y left_wrist - y left_elbow\<bar> < 0.1 \<and> \<bar>y right_wrist - y right_elbow\<bar> < 0.1
       \<and> \<bar>y left_wrist - y left_shoulder\<bar> < 0.1 \<and> \<bar>y right_wrist - y right_shoulder\<bar> < 0.1
    then Inr ''T-Pose''
    else if \<bar>x left_wrist - x right_wrist\<bar> < 0.3
       \<and> y left_wrist < y left_elbow \<and> y right_wrist < y right_elbow
       \<and> y left_wrist < y left_shoulder \<and> y right_wrist < y right_shoulder
       \<and> \<not> \<bar>x left_wrist - x left_elbow\<bar> < 0.1 \<and> \<not> \<bar>x right_wrist - x right_elbow\<bar> < 0.1
    then Inr ''Heart''
    else if y left_wrist < y left_elbow \<and> y right_wrist < y right_elbow
       \<and> y left_wrist < y left_shoulder \<and> y right_wrist < y right_shoulder
    then Inr ''Hands Up''
    else if (y left_wrist < y left_elbow \<or> y right_wrist < y right_elbow)
       \<and> (y left_wrist < y left_shoulder \<or> y right_wrist < y right_shoulder)
    then Inr ''Waving''
    else if \<bar>x left_wrist - x right_wrist\<bar> < 0.05
       \<and> y left_wrist < y left_elbow \<and> y right_wrist < y right_elbow
       \<and> y left_wrist > y left_shoulder
    then Inr ''Folded Hands''
    else if x left_wrist > x right_shoulder \<and> x right_wrist < x left_shoulder
       \<and> y left_elbow > y left_wrist \<and> y right_elbow > y right_wrist
    then Inr ''Arms Crossed''
    else if \<bar>avg_shoulder_y - avg_hip_y\<bar> \<le> 0.2 \<and> avg_hip_y < avg_knee_y
    then Inr ''Bending Down''
    else if avg_hip_y > avg_knee_y \<and> \<bar>y left_hip - y right_hip\<bar> < 0.5
    then Inr ''Sitting''
    else if \<bar>y left_wrist - y left_hip\<bar> < 0.1 \<and> \<bar>y right_wrist - y right_hip\<bar> < 0.1
       \<and> x left_elbow < x left_wrist \<and> x right_elbow > x right_wrist
    then Inr ''Standing''
    else if \<bar>avg_shoulder_y - avg_hip_y\<bar> > 0.2 \<and> avg_hip_y < avg_knee_y
    then Inr ''Hands on Hips''
    else Inr ''Unknown Pose''))))))))))"

text \<open>
  The eleven strings that the \<^verbatim>\<open>return\<close> statements of \<^verbatim>\<open>detect_pose\<close> produce, in the
  order of lines 73 to 111. The last one is \<^verbatim>\<open>Unknown Pose\<close>.
\<close>

definition pose_labels :: "string list" where
  "pose_labels = [''T-Pose'', ''Heart'', ''Hands Up'', ''Waving'', ''Folded Hands'',
     ''Arms Crossed'', ''Bending Down'', ''Sitting'', ''Standing'', ''Hands on Hips'',
     ''Unknown Pose'']"

section \<open>The ten joints and the conditions of the cascade, named\<close>

text \<open>The ten local variables that \<^verbatim>\<open>detect_pose\<close> binds before the cascade.\<close>

record joints =
  left_wrist :: NormalizedLandmark
  right_wrist :: NormalizedLandmark
  left_elbow :: NormalizedLandmark
  right_elbow :: NormalizedLandmark
  left_shoulder :: NormalizedLandmark
  right_shoulder :: NormalizedLandmark
  left_hip :: NormalizedLandmark
  right_hip :: NormalizedLandmark
  left_knee :: NormalizedLandmark
  right_knee :: NormalizedLandmark

definition joints_of :: "NormalizedLandmarkList \<Rightarrow> error + joints" where
  "joints_of landmarks =
    and_then (getitem (landmark landmarks) LEFT_WRIST) (\<lambda>lw.
    and_then (getitem (landmark landmarks) RIGHT_WRIST) (\<lambda>rw.
    and_then (getitem (landmark landmarks) LEFT_ELBOW) (\<lambda>le.
    and_then (getitem (landmark landmarks) RIGHT_ELBOW) (\<lambda>re.
    and_then (getitem (landmark landmarks) LEFT_SHOULDER) (\<lambda>ls.
    and_then (getitem (landmark landmarks) RIGHT_SHOULDER) (\<lambda>rs.
    and_then (getitem (landmark landmarks) LEFT_HIP) (\<lambda>lh.
    and_then (getitem (landmark landmarks) RIGHT_HIP) (\<lambda>rh.
    and_then (getitem (landmark landmarks) LEFT_KNEE) (\<lambda>lk.
    and_then (getitem (landmark landmarks) RIGHT_KNEE) (\<lambda>rk.
    Inr \<lparr>left_wrist = lw, right_wrist = rw, left_elbow = le, right_elbow = re,
         left_shoulder = ls, right_shoulder = rs, left_hip = lh, right_hip = rh,
         left_knee = lk, right_knee = rk\<rparr>))))))))))"

text \<open>All ten joints that the classifier reads are in the landmark list.\<close>

definition present :: "NormalizedLandmarkList \<Rightarrow> bool" where
  "present landmarks \<longleftrightarrow>
     landmark landmarks LEFT_WRIST \<noteq> None \<and> landmark landmarks RIGHT_WRIST \<noteq> None
   \<and> landmark landmarks LEFT_ELBOW \<noteq> None \<and> landmark landmarks RIGHT_ELBOW \<noteq> None
   \<and> landmark landmarks LEFT_SHOULDER \<noteq> None \<and> landmark landmarks RIGHT_SHOULDER \<noteq> None
   \<and> landmark landmarks LEFT_HIP \<noteq> None \<and> landmark landmarks RIGHT_HIP \<noteq> None
   \<and> landmark landmarks LEFT_KNEE \<noteq> None \<and> landmark landmarks RIGHT_KNEE \<noteq> None"

definition avg_shoulder_y :: "joints \<Rightarrow> real" where
  "avg_shoulder_y j = (y (left_shoulder j) + y (right_shoulder j)) / 2"

definition avg_hip_y :: "joints \<Rightarrow> real" where
  "avg_hip_y j = (y (left_hip j) + y (right_hip j)) / 2"

definition avg_knee_y :: "joints \<Rightarrow> real" where
  "avg_knee_y j = (y (left_knee j) + y (right_knee j)) / 2"

text \<open>Line 72.\<close>

definition t_pose :: "joints \<Rightarrow> bool" where
  "t_pose j \<longleftrightarrow>
     \<bar>y (left_wrist j) - y (left_elbow j)\<bar> < 0.1 \<and> \<bar>y (right_wrist j) - y (right_elbow j)\<bar> < 0.1
   \<and> \<bar>y (left_wrist j) - y (left_shoulder j)\<bar> < 0.1
   \<and> \<bar>y (right_wrist j) - y (right_shoulder j)\<bar> < 0.1"

text \<open>Line 76.\<close>

definition heart :: "joints \<Rightarrow> bool" where
  "heart j \<longleftrightarrow>
     \<bar>x (left_wrist j) - x (right_wrist j)\<bar> < 0.3
   \<and> y (left_wrist j) < y (left_elbow j) \<and> y (right_wrist j) < y (right_elbow j)
   \<and> y (left_wrist j) < y (left_shoulder j) \<and> y (right_wrist j) < y (right_shoulder j)
   \<and> \<not> \<bar>x (left_wrist j) - x (left_elbow j)\<bar> < 0.1
   \<and> \<not> \<bar>x (right_wrist j) - x (right_elbow j)\<bar> < 0.1"

text \<open>Line 80.\<close>

definition hands_up :: "joints \<Rightarrow> bool" where
  "hands_up j \<longleftrightarrow>
     y (left_wrist j) < y (left_elbow j) \<and> y (right_wrist j) < y (right_elbow j)
   \<and> y (left_wrist j) < y (left_shoulder j) \<and> y (right_wrist j) < y (right_shoulder j)"

text \<open>Line 84.\<close>

definition waving :: "joints \<Rightarrow> bool" where
  "waving j \<longleftrightarrow>
     (y (left_wrist j) < y (left_elbow j) \<or> y (right_wrist j) < y (right_elbow j))
   \<and> (y (left_wrist j) < y (left_shoulder j) \<or> y (right_wrist j) < y (right_shoulder j))"

text \<open>Line 88.\<close>

definition folded_hands :: "joints \<Rightarrow> bool" where
  "folded_hands j \<longleftrightarrow>
     \<bar>x (left_wrist j) - x (right_wrist j)\<bar> < 0.05
   \<and> y (left_wrist j) < y (left_elbow j) \<and> y (right_wrist j) < y (right_elbow j)
   \<and> y (left_wrist j) > y (left_shoulder j)"

text \<open>Line 92.\<close>

definition arms_crossed :: "joints \<Rightarrow> bool" where
  "arms_crossed j \<longleftrightarrow>
     x (left_wrist j) > x (right_shoulder j) \<and> x (right_wrist j) < x (left_shoulder j)
   \<and> y (left_elbow j) > y (left_wrist j) \<and> y (right_elbow j) > y (right_wrist j)"

text \<open>Line 96.\<close>

definition bending_down :: "joints \<Rightarrow> bool" where
  "bending_down j \<longleftrightarrow> \<bar>avg_shoulder_y j - avg_hip_y j\<bar> \<le> 0.2 \<and> avg_hip_y j < avg_knee_y j"

text \<open>Line 100.\<close>

definition sitting :: "joints \<Rightarrow> bool" where
  "sitting j \<longleftrightarrow> avg_hip_y j > avg_knee_y j \<and> \<bar>y (left_hip j) - y (right_hip j)\<bar> < 0.5"

text \<open>Line 104.\<close>

definition standing :: "joints \<Rightarrow> bool" where
  "standing j \<longleftrightarrow>
     \<bar>y (left_wrist j) - y (left_hip j)\<bar> < 0.1 \<and> \<bar>y (right_wrist j) - y (right_hip j)\<bar> < 0.1
   \<and> x (left_elbow j) < x (left_wrist j) \<and> x (right_elbow j) > x (right_wrist j)"

text \<open>Line 108.\<close>

definition hands_on_hips :: "joints \<Rightarrow> bool" where
  "hands_on_hips j \<longleftrightarrow> \<bar>avg_shoulder_y j - avg_hip_y j\<bar> > 0.2 \<and> avg_hip_y j < avg_knee_y j"

text \<open>The cascade over the named conditions: the label of the first one that holds.\<close>

definition first_match :: "joints \<Rightarrow> string" where
  "first_match j =
    (if t_pose j then ''T-Pose''
     else if heart j then ''Heart''
     else if hands_up j then ''Hands Up''
     else if waving j then ''Waving''
     else if folded_hands j then ''Folded Hands''
     else if arms_crossed j then ''Arms Crossed''
     else if bending_down j then ''Bending Down''
     else if sitting j then ''Sitting''
     else if standing j then ''Standing''
     else if hands_on_hips j then ''Hands on Hips''
     else ''Unknown Pose'')"

text \<open>None of the ten conditions of the cascade holds.\<close>

definition unmatched :: "joints \<Rightarrow> bool" where
  "unmatched j \<longleftrightarrow>
     \<not> t_pose j \<and> \<not> heart j \<and> \<not> hands_up j \<and> \<not> waving j \<and> \<not> folded_hands j
   \<and> \<not> arms_crossed j \<and> \<not> bending_down j \<and> \<not> sitting j \<and> \<not> standing j
   \<and> \<not> hands_on_hips j"

text \<open>The joints that \<^verbatim>\<open>detect_pose\<close> looks up, in the order of lines 56 to 65.\<close>

definition classifier_joints :: "PoseLandmark list" where
  "classifier_joints = [LEFT_WRIST, RIGHT_WRIST, LEFT_ELBOW, RIGHT_ELBOW, LEFT_SHOULDER,
     RIGHT_SHOULDER, LEFT_HIP, RIGHT_HIP, LEFT_KNEE, RIGHT_KNEE]"

definition xy :: "NormalizedLandmark \<Rightarrow> real \<times> real" where
  "xy p = (x p, y p)"

text \<open>
  Two landmark lists agree on the classifier's joints: each of the ten is absent from both,
  or in both with the same x and the same y.
\<close>

definition agree :: "NormalizedLandmarkList \<Rightarrow> NormalizedLandmarkList \<Rightarrow> bool" where
  "agree lm lm' \<longleftrightarrow>
     (\<forall>J \<in> set classifier_joints. map_option xy (landmark lm J) = map_option xy (landmark lm' J))"

section \<open>Conditions as the specification words them\<close>

text \<open>
  The label enumeration in the words of the specification: T-Pose, Heart, Hands Up, Waving,
  Folded Hands, Arms Crossed, Bending Down, Sitting, Standing, Hands on Hips, Unknown.
\<close>

definition pose_labels_spec :: "string list" where
  "pose_labels_spec = [''T-Pose'', ''Heart'', ''Hands Up'', ''Waving'', ''Folded Hands'',
     ''Arms Crossed'', ''Bending Down'', ''Sitting'', ''Standing'', ''Hands on Hips'',
     ''Unknown'']"

text \<open>
  The Heart condition in the words of the specification: wrists horizontally close, both
  wrists above their elbows and above their shoulders, and NOT (each wrist nearly
  vertically aligned with its own elbow). The negation is over the conjunction of the two
  alignments.
\<close>

definition heart_spec :: "joints \<Rightarrow> bool" where
  "heart_spec j \<longleftrightarrow>
     \<bar>x (left_wrist j) - x (right_wrist j)\<bar> < 0.3
   \<and> y (left_wrist j) < y (left_elbow j) \<and> y (right_wrist j) < y (right_elbow j)
   \<and> y (left_wrist j) < y (left_shoulder j) \<and> y (right_wrist j) < y (right_shoulder j)
   \<and> \<not> (\<bar>x (left_wrist j) - x (left_elbow j)\<bar> < 0.1
        \<and> \<bar>x (right_wrist j) - x (right_elbow j)\<bar> < 0.1)"

text \<open>
  The neutral case in the words of the specification: wrists below their elbows, elbows
  below their shoulders, hips above knees (average hip y below average knee y), shoulders
  above hips. Below is a greater y. The margins that the specification calls far and large
  are left open: any margin satisfies this condition.
\<close>

definition neutral_spec :: "joints \<Rightarrow> bool" where
  "neutral_spec j \<longleftrightarrow>
     y (left_wrist j) > y (left_elbow j) \<and> y (right_wrist j) > y (right_elbow j)
   \<and> y (left_elbow j) > y (left_shoulder j) \<and> y (right_elbow j) > y (right_shoulder j)
   \<and> avg_hip_y j < avg_knee_y j
   \<and> avg_shoulder_y j < avg_hip_y j"

text \<open>The same arms and torso, with the hips level with the knees.\<close>

definition neutral_level :: "joints \<Rightarrow> bool" where
  "neutral_level j \<longleftrightarrow>
     y (left_wrist j) > y (left_elbow j) \<and> y (right_wrist j) > y (right_elbow j)
   \<and> y (left_elbow j) > y (left_shoulder j) \<and> y (right_elbow j) > y (right_shoulder j)
   \<and> avg_hip_y j = avg_knee_y j
   \<and> avg_shoulder_y j < avg_hip_y j"

section \<open>The frame loop\<close>

text \<open>
  \<^verbatim>\<open>update_frame\<close>, lines 113 to 162, is the callback of a timer: its last statement,
  \<^verbatim>\<open>label.after(10, update_frame)\<close>, registers the next call. The script calls it once
  (line 171) and enters the event loop of the window (line 173).

  The camera, the pose model and the window are outside the repository. The camera is a
  function from the number of the read to the image read, \<open>None\<close> when \<^verbatim>\<open>ret\<close> is false;
  the pose model is a function from the frame to the landmarks, \<open>None\<close> when nobody is
  found. A frame records the image it came from and what was drawn on it. The rescaling to
  the window (lines 139 to 156) changes the size of the displayed image only and is left out.
\<close>

record put_text =
  text_of :: string
  org :: "int \<times> int"
  color :: "nat \<times> nat \<times> nat"
  thickness :: int

record Frame =
  image :: nat
  mirrored :: bool
  skeleton :: bool
  texts :: "put_text list"

text \<open>
  The state of the running program: how many times the camera was read, how many calls of
  \<^verbatim>\<open>update_frame\<close> are registered with \<^verbatim>\<open>label.after\<close> and have not run yet, and the frames
  handed to the label, oldest first.
\<close>

record app =
  reads :: nat
  after_queue :: nat
  shown :: "Frame list"

text \<open>Lines 127 to 137: three passes of the border, then the text itself.\<close>

definition draw_label :: "string \<Rightarrow> Frame \<Rightarrow> Frame" where
  "draw_label pose_type frame =
     frame\<lparr>texts := texts frame
        @ map (\<lambda>i. \<lparr>text_of = pose_type, org = (10 - i, 30 - i), color = (0, 0, 0),
                     thickness = 2 + i\<rparr>) [0, 1, 2]
        @ [\<lparr>text_of = pose_type, org = (10, 30), color = (255, 255, 255), thickness = 2\<rparr>]\<rparr>"

definition update_frame :: "(nat \<Rightarrow> nat option) \<Rightarrow> (Frame \<Rightarrow> NormalizedLandmarkList option)
    \<Rightarrow> app \<Rightarrow> error + app" where
  "update_frame cap_read pose_process s =
    (let s1 = s\<lparr>reads := reads s + 1\<rparr> in
     case cap_read (reads s) of
       None \<Rightarrow> Inr s1
     | Some img \<Rightarrow>
         let frame = \<lparr>image = img, mirrored = True, skeleton = False, texts = []\<rparr> in
         and_then
           (case pose_process frame of
              None \<Rightarrow> Inr frame
            | Some pose_landmarks \<Rightarrow>
                and_then (detect_pose pose_landmarks) (\<lambda>pose_type.
                  Inr (draw_label pose_type (frame\<lparr>skeleton := True\<rparr>))))
           (\<lambda>frame. Inr (s1\<lparr>shown := shown s1 @ [frame], after_queue := after_queue s1 + 1\<rparr>)))"

text \<open>
  One turn of the event loop when a timer is due. With no registered call nothing runs.
  Otherwise the call is taken off the queue and run; an exception that escapes a callback is
  reported by the window toolkit and the event loop goes on, with what the callback did
  before it raised (the read of the camera).
\<close>

definition fire :: "(nat \<Rightarrow> nat option) \<Rightarrow> (Frame \<Rightarrow> NormalizedLandmarkList option)
    \<Rightarrow> app \<Rightarrow> app" where
  "fire cap_read pose_process s =
    (if after_queue s = 0 then s
     else let s0 = s\<lparr>after_queue := after_queue s - 1\<rparr> in
       case update_frame cap_read pose_process s0 of
         Inr s' \<Rightarrow> s'
       | Inl e \<Rightarrow> s0\<lparr>reads := reads s0 + 1\<rparr>)"

text \<open>
  \<^verbatim>\<open>root.mainloop()\<close> runs until the window is closed; \<open>n\<close> is the number of timer
  turns that pass before that.
\<close>

fun mainloop :: "(nat \<Rightarrow> nat option) \<Rightarrow> (Frame \<Rightarrow> NormalizedLandmarkList option)
    \<Rightarrow> nat \<Rightarrow> app \<Rightarrow> app" where
  "mainloop cap_read pose_process 0 s = s"
| "mainloop cap_read pose_process (Suc n) s =
     mainloop cap_read pose_process n (fire cap_read pose_process s)"

text \<open>Lines 171 and 173: the first call, then the event loop.\<close>

definition main :: "(nat \<Rightarrow> nat option) \<Rightarrow> (Frame \<Rightarrow> NormalizedLandmarkList option)
    \<Rightarrow> nat \<Rightarrow> error + app" where
  "main cap_read pose_process n =
     and_then (update_frame cap_read pose_process \<lparr>reads = 0, after_queue = 0, shown = []\<rparr>)
       (\<lambda>s. Inr (mainloop cap_read pose_process n s))"

section \<open>Concrete landmark sets and cameras\<close>

definition pt :: "real \<Rightarrow> real \<Rightarrow> NormalizedLandmark" where
  "pt a b = \<lparr>x = a, y = b, visibility = 1\<rparr>"

text \<open>
  A full landmark list: the ten joints of the classifier as given, every other joint at
  the centre of the image.
\<close>

definition body_of :: "joints \<Rightarrow> NormalizedLandmarkList" where
  "body_of j =
     \<lparr>landmark = (\<lambda>_. Some (pt 0.5 0.5))
        (LEFT_WRIST \<mapsto> left_wrist j, RIGHT_WRIST \<mapsto> right_wrist j,
         LEFT_ELBOW \<mapsto> left_elbow j, RIGHT_ELBOW \<mapsto> right_elbow j,
         LEFT_SHOULDER \<mapsto> left_shoulder j, RIGHT_SHOULDER \<mapsto> right_shoulder j,
         LEFT_HIP \<mapsto> left_hip j, RIGHT_HIP \<mapsto> right_hip j,
         LEFT_KNEE \<mapsto> left_knee j, RIGHT_KNEE \<mapsto> right_knee j)\<rparr>"

text \<open>Arms level at shoulder height, wrists slightly above elbows and shoulders.\<close>

definition raised_t :: joints where
  "raised_t =
     \<lparr>left_wrist = pt 0.1 0.45, right_wrist = pt 0.9 0.45,
       left_elbow = pt 0.25 0.5, right_elbow = pt 0.75 0.5,
       left_shoulder = pt 0.4 0.5, right_shoulder = pt 0.6 0.5,
       left_hip = pt 0.45 0.7, right_hip = pt 0.55 0.7,
       left_knee = pt 0.45 0.9, right_knee = pt 0.55 0.9\<rparr>"

text \<open>Wrists 0.0999 above elbows and shoulders.\<close>

definition t_inside :: joints where
  "t_inside =
     \<lparr>left_wrist = pt 0.1 0.5, right_wrist = pt 0.9 0.5,
       left_elbow = pt 0.25 0.5999, right_elbow = pt 0.75 0.5999,
       left_shoulder = pt 0.4 0.5999, right_shoulder = pt 0.6 0.5999,
       left_hip = pt 0.45 0.7, right_hip = pt 0.55 0.7,
       left_knee = pt 0.45 0.9, right_knee = pt 0.55 0.9\<rparr>"

text \<open>Wrists 0.1 above elbows and shoulders.\<close>

definition t_edge :: joints where
  "t_edge =
     \<lparr>left_wrist = pt 0.1 0.5, right_wrist = pt 0.9 0.5,
       left_elbow = pt 0.25 0.6, right_elbow = pt 0.75 0.6,
       left_shoulder = pt 0.4 0.6, right_shoulder = pt 0.6 0.6,
       left_hip = pt 0.45 0.7, right_hip = pt 0.55 0.7,
       left_knee = pt 0.45 0.9, right_knee = pt 0.55 0.9\<rparr>"

text \<open>Both wrists raised and close together; the left wrist straight above its elbow, the
  right wrist 0.15 to the side of its elbow.\<close>

definition one_arm_angled :: joints where
  "one_arm_angled =
     \<lparr>left_wrist = pt 0.45 0.1, right_wrist = pt 0.55 0.1,
       left_elbow = pt 0.45 0.3, right_elbow = pt 0.7 0.3,
       left_shoulder = pt 0.4 0.4, right_shoulder = pt 0.6 0.4,
       left_hip = pt 0.45 0.7, right_hip = pt 0.55 0.7,
       left_knee = pt 0.45 0.9, right_knee = pt 0.55 0.9\<rparr>"

text \<open>Both wrists raised, close together, each 0.15 to the side of its elbow.\<close>

definition both_arms_angled :: joints where
  "both_arms_angled =
     \<lparr>left_wrist = pt 0.45 0.1, right_wrist = pt 0.55 0.1,
       left_elbow = pt 0.3 0.3, right_elbow = pt 0.7 0.3,
       left_shoulder = pt 0.4 0.4, right_shoulder = pt 0.6 0.4,
       left_hip = pt 0.45 0.7, right_hip = pt 0.55 0.7,
       left_knee = pt 0.45 0.9, right_knee = pt 0.55 0.9\<rparr>"

text \<open>Arms hanging, shoulders at 0.2, hips at 0.5, knees at 0.8: the neutral case of the
  specification, with margins of 0.2 and more.\<close>

definition upright :: joints where
  "upright =
     \<lparr>left_wrist = pt 0.35 0.65, right_wrist = pt 0.65 0.65,
       left_elbow = pt 0.38 0.42, right_elbow = pt 0.62 0.42,
       left_shoulder = pt 0.4 0.2, right_shoulder = pt 0.6 0.2,
       left_hip = pt 0.45 0.5, right_hip = pt 0.55 0.5,
       left_knee = pt 0.45 0.8, right_knee = pt 0.55 0.8\<rparr>"

text \<open>Arms hanging, shoulders at 0.2, hips and knees both at 0.75.\<close>

definition idle :: joints where
  "idle =
     \<lparr>left_wrist = pt 0.35 0.6, right_wrist = pt 0.65 0.6,
       left_elbow = pt 0.38 0.4, right_elbow = pt 0.62 0.4,
       left_shoulder = pt 0.4 0.2, right_shoulder = pt 0.6 0.2,
       left_hip = pt 0.45 0.75, right_hip = pt 0.55 0.75,
       left_knee = pt 0.3 0.75, right_knee = pt 0.7 0.75\<rparr>"

text \<open>Arms hanging, shoulders at 0.5, hips at 0.6, knees at 0.8.\<close>

definition stooped :: joints where
  "stooped =
     \<lparr>left_wrist = pt 0.35 0.9, right_wrist = pt 0.65 0.9,
       left_elbow = pt 0.38 0.7, right_elbow = pt 0.62 0.7,
       left_shoulder = pt 0.4 0.5, right_shoulder = pt 0.6 0.5,
       left_hip = pt 0.45 0.6, right_hip = pt 0.55 0.6,
       left_knee = pt 0.45 0.8, right_knee = pt 0.55 0.8\<rparr>"

text \<open>
  The landmark list of \<open>idle\<close> with another nose and with the visibility of every joint
  set to 0.
\<close>

definition idle_unseen :: NormalizedLandmarkList where
  "idle_unseen =
     \<lparr>landmark = (\<lambda>J. if J = NOSE then Some (pt 0 1)
                       else map_option (\<lambda>p. p\<lparr>visibility := 0\<rparr>) (landmark (body_of idle) J))\<rparr>"

text \<open>A camera whose second read fails, and a pose model that finds nobody.\<close>

definition camera :: "nat \<Rightarrow> nat option" where
  "camera k = (if k = 1 then None else Some k)"

definition nobody :: "Frame \<Rightarrow> NormalizedLandmarkList option" where
  "nobody frame = None"

section \<open>The classifier is the cascade over the ten joints\<close>

lemma and_then_simps:
  "and_then (Inl e) f = Inl e"
  "and_then (Inr v) f = f v"
  by (simp_all add: and_then_def)

lemma getitem_simps:
  "m k = None \<Longrightarrow> getitem m k = Inl IndexError"
  "m k = Some p \<Longrightarrow> getitem m k = Inr p"
  by (simp_all add: getitem_def)

lemma joints_of_Inr_iff:
  "joints_of lm = Inr j \<longleftrightarrow>
     landmark lm LEFT_WRIST = Some (left_wrist j) \<and> landmark lm RIGHT_WRIST = Some (right_wrist j)
   \<and> landmark lm LEFT_ELBOW = Some (left_elbow j) \<and> landmark lm RIGHT_ELBOW = Some (right_elbow j)
   \<and> landmark lm LEFT_SHOULDER = Some (left_shoulder j)
   \<and> landmark lm RIGHT_SHOULDER = Some (right_shoulder j)
   \<and> landmark lm LEFT_HIP = Some (left_hip j) \<and> landmark lm RIGHT_HIP = Some (right_hip j)
   \<and> landmark lm LEFT_KNEE = Some (left_knee j) \<and> landmark lm RIGHT_KNEE = Some (right_knee j)"
  by (cases j) (simp add: joints_of_def getitem_def and_then_def split: option.split)

lemma detect_pose_first_match:
  assumes "joints_of lm = Inr j"
  shows "detect_pose lm = Inr (first_match j)"
proof -
  from assms have l:
    "landmark lm LEFT_WRIST = Some (left_wrist j)" "landmark lm RIGHT_WRIST = Some (right_wrist j)"
    "landmark lm LEFT_ELBOW = Some (left_elbow j)" "landmark lm RIGHT_ELBOW = Some (right_elbow j)"
    "landmark lm LEFT_SHOULDER = Some (left_shoulder j)"
    "landmark lm RIGHT_SHOULDER = Some (right_shoulder j)"
    "landmark lm LEFT_HIP = Some (left_hip j)" "landmark lm RIGHT_HIP = Some (right_hip j)"
    "landmark lm LEFT_KNEE = Some (left_knee j)" "landmark lm RIGHT_KNEE = Some (right_knee j)"
    by (simp_all add: joints_of_Inr_iff)
  show ?thesis
    unfolding detect_pose_def first_match_def t_pose_def heart_def hands_up_def waving_def
      folded_hands_def arms_crossed_def bending_down_def sitting_def standing_def
      hands_on_hips_def avg_shoulder_y_def avg_hip_y_def avg_knee_y_def Let_def
      getitem_def and_then_def
    by (simp only: l option.case sum.case if_distrib [where f = Inr])
qed

lemma detect_pose_absent:
  "joints_of lm = Inl e \<Longrightarrow> detect_pose lm = Inl e"
  unfolding joints_of_def detect_pose_def getitem_def and_then_def
  by (simp split: option.splits)

lemma joints_of_present:
  "present lm \<Longrightarrow> \<exists>j. joints_of lm = Inr j"
  by (auto simp: present_def joints_of_def getitem_def and_then_def)

lemma joints_of_Inr_present:
  "joints_of lm = Inr j \<Longrightarrow> present lm"
  by (simp add: joints_of_Inr_iff present_def)

lemma joints_of_body_of:
  "joints_of (body_of j) = Inr j"
  by (simp add: joints_of_Inr_iff body_of_def)

lemma detect_pose_body_of:
  "detect_pose (body_of j) = Inr (first_match j)"
  by (rule detect_pose_first_match) (rule joints_of_body_of)

lemmas conds = t_pose_def heart_def hands_up_def waving_def folded_hands_def
  arms_crossed_def bending_down_def sitting_def standing_def hands_on_hips_def
  avg_shoulder_y_def avg_hip_y_def avg_knee_y_def

lemma idle_unmatched: "unmatched idle"
  by (simp add: unmatched_def conds idle_def pt_def)

section \<open>Totality\<close>

text \<open>
  Claim C1, as stated: for every landmark list that holds all ten joints, the classifier
  returns exactly one label from the fixed 11-label enumeration, which the specification
  gives as ending in \<^verbatim>\<open>Unknown\<close>. The landmark list of \<open>idle\<close> holds all ten joints, none
  of the ten conditions holds on it, and line 111 returns \<^verbatim>\<open>Unknown Pose\<close>, which is none
  of the eleven labels of the specification.
\<close>

theorem spec_enumeration_counterexample:
  "present (body_of idle)
   \<and> detect_pose (body_of idle) = Inr ''Unknown Pose''
   \<and> ''Unknown Pose'' \<notin> set pose_labels_spec
   \<and> \<not> (\<exists>label \<in> set pose_labels_spec. detect_pose (body_of idle) = Inr label)"
proof -
  have p: "present (body_of idle)"
    by (simp add: present_def body_of_def)
  have e: "detect_pose (body_of idle) = Inr ''Unknown Pose''"
    using idle_unmatched by (simp add: detect_pose_body_of first_match_def unmatched_def)
  have n: "''Unknown Pose'' \<notin> set pose_labels_spec"
    by (simp add: pose_labels_spec_def)
  from p e n show ?thesis by simp
qed

text \<open>
  Claim C1, amended: for every landmark list that holds all ten joints of the classifier,
  with any real coordinates, \<open>detect_pose\<close> does not raise and returns exactly one label, and
  the label is one of the eleven strings that the code returns (\<open>pose_labels\<close>, ending in
  \<^verbatim>\<open>Unknown Pose\<close>), which are pairwise different.
\<close>

theorem detect_pose_total:
  "present lm \<Longrightarrow>
     (\<exists>!label. detect_pose lm = Inr label) \<and> (\<exists>label \<in> set pose_labels. detect_pose lm = Inr label)
   \<and> length pose_labels = 11 \<and> distinct pose_labels"
proof -
  assume "present lm"
  then obtain j where j: "joints_of lm = Inr j"
    using joints_of_present by blast
  have d: "detect_pose lm = Inr (first_match j)"
    using j by (rule detect_pose_first_match)
  have m: "first_match j \<in> set pose_labels"
    by (simp add: first_match_def pose_labels_def)
  have n: "length pose_labels = 11 \<and> distinct pose_labels"
    by (simp add: pose_labels_def)
  from d m n show ?thesis by auto
qed

theorem detect_pose_total_witness:
  "present (body_of stooped) \<and> detect_pose (body_of stooped) = Inr ''Bending Down''
   \<and> ''Bending Down'' \<in> set pose_labels"
proof -
  have p: "present (body_of stooped)"
    by (simp add: present_def body_of_def)
  have e: "detect_pose (body_of stooped) = Inr ''Bending Down''"
    by (simp add: detect_pose_body_of first_match_def conds stooped_def pt_def)
  from detect_pose_total [OF p] p e show ?thesis by auto
qed

section \<open>Order of the cascade\<close>

text \<open>
  Claim C2. A landmark list on which both the T-Pose condition (line 72) and the Hands-Up
  condition (line 80) hold is classified T-Pose, not Hands Up: the first condition of the
  cascade that holds decides.
\<close>

theorem t_pose_before_hands_up:
  "joints_of lm = Inr j \<Longrightarrow> t_pose j \<Longrightarrow> hands_up j \<Longrightarrow>
     detect_pose lm = Inr ''T-Pose'' \<and> detect_pose lm \<noteq> Inr ''Hands Up''"
  by (simp add: detect_pose_first_match first_match_def)

theorem t_pose_before_hands_up_witness:
  "joints_of (body_of raised_t) = Inr raised_t \<and> t_pose raised_t \<and> hands_up raised_t
   \<and> detect_pose (body_of raised_t) = Inr ''T-Pose''"
proof -
  have t: "t_pose raised_t" by (simp add: t_pose_def raised_t_def pt_def)
  have h: "hands_up raised_t" by (simp add: hands_up_def raised_t_def pt_def)
  from t_pose_before_hands_up [OF joints_of_body_of t h] t h show ?thesis
    by (simp add: joints_of_body_of)
qed

section \<open>The fallback\<close>

text \<open>
  Claim C3, as stated: when none of the ten conditions holds the classifier returns the
  label \<^verbatim>\<open>Unknown\<close>. On the landmark list of \<open>idle\<close> none of the ten conditions holds, and
  line 111 returns the string \<^verbatim>\<open>Unknown Pose\<close>, which is not the string \<^verbatim>\<open>Unknown\<close>.
\<close>

theorem fallback_text_counterexample:
  "joints_of (body_of idle) = Inr idle \<and> unmatched idle
   \<and> detect_pose (body_of idle) = Inr ''Unknown Pose''
   \<and> detect_pose (body_of idle) \<noteq> Inr ''Unknown''"
  using idle_unmatched
  by (simp add: joints_of_body_of detect_pose_body_of first_match_def unmatched_def)

text \<open>
  Claim C3, amended: on every landmark list on which none of the ten conditions holds, the
  classifier returns the fallback label \<^verbatim>\<open>Unknown Pose\<close>, one of the eleven strings of
  \<open>pose_labels\<close>.
\<close>

theorem unmatched_fallback:
  "joints_of lm = Inr j \<Longrightarrow> unmatched j \<Longrightarrow>
     detect_pose lm = Inr ''Unknown Pose'' \<and> ''Unknown Pose'' \<in> set pose_labels"
  by (simp add: detect_pose_first_match first_match_def unmatched_def pose_labels_def)

theorem unmatched_fallback_witness:
  "joints_of (body_of idle) = Inr idle \<and> unmatched idle
   \<and> detect_pose (body_of idle) = Inr ''Unknown Pose''"
  using unmatched_fallback [OF joints_of_body_of idle_unmatched] idle_unmatched
  by (simp add: joints_of_body_of)

section \<open>The Heart condition\<close>

text \<open>
  Claim C4, as stated: the classifier returns Heart exactly when the T-Pose condition fails
  and the Heart condition of the specification holds, whose last part is NOT (each wrist
  nearly aligned with its own elbow). On \<open>one_arm_angled\<close> the left wrist is aligned with its
  elbow and the right wrist is not: the T-Pose condition fails, the condition of the
  specification holds, and line 76, which negates each alignment on its own, does not hold.
  The classifier returns Hands Up.
\<close>

theorem heart_scope_counterexample:
  "joints_of (body_of one_arm_angled) = Inr one_arm_angled
   \<and> \<not> t_pose one_arm_angled \<and> heart_spec one_arm_angled
   \<and> detect_pose (body_of one_arm_angled) = Inr ''Hands Up''
   \<and> detect_pose (body_of one_arm_angled) \<noteq> Inr ''Heart''"
  by (simp add: joints_of_body_of detect_pose_body_of first_match_def conds heart_spec_def
      one_arm_angled_def pt_def)

text \<open>
  Claim C4, amended: the classifier returns Heart exactly when the T-Pose condition fails,
  the wrists are horizontally within 0.3 of each other, both wrists are above their elbows
  and above their shoulders, and neither wrist is within 0.1 horizontally of its own elbow.
\<close>

theorem heart_iff:
  "joints_of lm = Inr j \<Longrightarrow>
     detect_pose lm = Inr ''Heart'' \<longleftrightarrow>
       \<not> t_pose j
     \<and> \<bar>x (left_wrist j) - x (right_wrist j)\<bar> < 0.3
     \<and> y (left_wrist j) < y (left_elbow j) \<and> y (right_wrist j) < y (right_elbow j)
     \<and> y (left_wrist j) < y (left_shoulder j) \<and> y (right_wrist j) < y (right_shoulder j)
     \<and> \<not> \<bar>x (left_wrist j) - x (left_elbow j)\<bar> < 0.1
     \<and> \<not> \<bar>x (right_wrist j) - x (right_elbow j)\<bar> < 0.1"
proof -
  assume j: "joints_of lm = Inr j"
  have "first_match j = ''Heart'' \<longleftrightarrow> \<not> t_pose j \<and> heart j"
    by (simp add: first_match_def)
  then show ?thesis
    by (simp add: detect_pose_first_match [OF j] heart_def)
qed

theorem heart_iff_witness:
  "joints_of (body_of both_arms_angled) = Inr both_arms_angled
   \<and> detect_pose (body_of both_arms_angled) = Inr ''Heart''
   \<and> \<not> t_pose both_arms_angled
   \<and> \<not> \<bar>x (left_wrist both_arms_angled) - x (left_elbow both_arms_angled)\<bar> < 0.1
   \<and> \<not> \<bar>x (right_wrist both_arms_angled) - x (right_elbow both_arms_angled)\<bar> < 0.1"
proof -
  have t: "\<not> t_pose both_arms_angled"
    by (simp add: t_pose_def both_arms_angled_def pt_def)
  have h: "heart both_arms_angled"
    by (simp add: heart_def both_arms_angled_def pt_def)
  from heart_iff [OF joints_of_body_of, of both_arms_angled] t h show ?thesis
    by (simp add: joints_of_body_of heart_def)
qed

section \<open>Bending Down and Sitting\<close>

text \<open>
  Claim C6. No landmark list satisfies both the Bending-Down condition (line 96) and the
  Sitting condition (line 100); and when the Bending-Down condition holds and none of the
  six conditions before it does, the classifier returns Bending Down, not Sitting.
\<close>

theorem bending_before_sitting:
  "joints_of lm = Inr j \<Longrightarrow>
     \<not> (bending_down j \<and> sitting j)
   \<and> (bending_down j \<and> \<not> t_pose j \<and> \<not> heart j \<and> \<not> hands_up j \<and> \<not> waving j
        \<and> \<not> folded_hands j \<and> \<not> arms_crossed j
      \<longrightarrow> detect_pose lm = Inr ''Bending Down'' \<and> detect_pose lm \<noteq> Inr ''Sitting'')"
proof -
  assume j: "joints_of lm = Inr j"
  have ex: "\<not> (bending_down j \<and> sitting j)"
    by (simp add: bending_down_def sitting_def)
  show ?thesis
    using ex by (simp add: detect_pose_first_match [OF j] first_match_def)
qed

theorem bending_before_sitting_witness:
  "joints_of (body_of stooped) = Inr stooped \<and> bending_down stooped \<and> \<not> sitting stooped
   \<and> \<not> t_pose stooped \<and> \<not> heart stooped \<and> \<not> hands_up stooped \<and> \<not> waving stooped
   \<and> \<not> folded_hands stooped \<and> \<not> arms_crossed stooped
   \<and> detect_pose (body_of stooped) = Inr ''Bending Down''"
proof -
  have e: "bending_down stooped \<and> \<not> t_pose stooped \<and> \<not> heart stooped \<and> \<not> hands_up stooped
      \<and> \<not> waving stooped \<and> \<not> folded_hands stooped \<and> \<not> arms_crossed stooped"
    by (simp add: conds stooped_def pt_def)
  from bending_before_sitting [OF joints_of_body_of, of stooped] e show ?thesis
    by (simp add: joints_of_body_of)
qed

section \<open>The boundary of the T-Pose tolerance\<close>

text \<open>
  Claim C7. The T-Pose test compares with a strict less-than against 0.1: a landmark list
  whose four vertical distances (each wrist to its elbow, each wrist to its shoulder) are
  all 0.0999 is classified T-Pose, and a landmark list with one of the four distances at
  0.1 or more is not classified T-Pose. The distances are those of real arithmetic.
\<close>

theorem t_pose_boundary:
  "joints_of lm = Inr j \<Longrightarrow>
     (\<bar>y (left_wrist j) - y (left_elbow j)\<bar> = 0.0999 \<and> \<bar>y (right_wrist j) - y (right_elbow j)\<bar> = 0.0999
      \<and> \<bar>y (left_wrist j) - y (left_shoulder j)\<bar> = 0.0999
      \<and> \<bar>y (right_wrist j) - y (right_shoulder j)\<bar> = 0.0999
      \<longrightarrow> detect_pose lm = Inr ''T-Pose'')
   \<and> (\<bar>y (left_wrist j) - y (left_elbow j)\<bar> \<ge> 0.1 \<or> \<bar>y (right_wrist j) - y (right_elbow j)\<bar> \<ge> 0.1
      \<or> \<bar>y (left_wrist j) - y (left_shoulder j)\<bar> \<ge> 0.1
      \<or> \<bar>y (right_wrist j) - y (right_shoulder j)\<bar> \<ge> 0.1
      \<longrightarrow> detect_pose lm \<noteq> Inr ''T-Pose'')"
proof -
  assume j: "joints_of lm = Inr j"
  have eq: "detect_pose lm = Inr ''T-Pose'' \<longleftrightarrow> t_pose j"
    by (simp add: detect_pose_first_match [OF j] first_match_def)
  show ?thesis
    unfolding eq t_pose_def by auto
qed

theorem t_pose_boundary_witness:
  "\<bar>y (left_wrist t_inside) - y (left_elbow t_inside)\<bar> = 0.0999
   \<and> \<bar>y (right_wrist t_inside) - y (right_elbow t_inside)\<bar> = 0.0999
   \<and> \<bar>y (left_wrist t_inside) - y (left_shoulder t_inside)\<bar> = 0.0999
   \<and> \<bar>y (right_wrist t_inside) - y (right_shoulder t_inside)\<bar> = 0.0999
   \<and> detect_pose (body_of t_inside) = Inr ''T-Pose''
   \<and> \<bar>y (left_wrist t_edge) - y (left_elbow t_edge)\<bar> \<ge> 0.1
   \<and> detect_pose (body_of t_edge) \<noteq> Inr ''T-Pose''"
proof -
  have a: "\<bar>y (left_wrist t_inside) - y (left_elbow t_inside)\<bar> = 0.0999
   \<and> \<bar>y (right_wrist t_inside) - y (right_elbow t_inside)\<bar> = 0.0999
   \<and> \<bar>y (left_wrist t_inside) - y (left_shoulder t_inside)\<bar> = 0.0999
   \<and> \<bar>y (right_wrist t_inside) - y (right_shoulder t_inside)\<bar> = 0.0999"
    by (simp add: t_inside_def pt_def)
  have b: "\<bar>y (left_wrist t_edge) - y (left_elbow t_edge)\<bar> \<ge> 0.1"
    by (simp add: t_edge_def pt_def)
  from t_pose_boundary [OF joints_of_body_of, of t_inside]
    t_pose_boundary [OF joints_of_body_of, of t_edge] a b
  show ?thesis by blast
qed

section \<open>When the fallback can be returned\<close>

lemma hips_above_knees_matched:
  "avg_hip_y j < avg_knee_y j \<Longrightarrow> bending_down j \<or> hands_on_hips j"
  by (auto simp: bending_down_def hands_on_hips_def)

text \<open>
  Claim C9. If the classifier returns the fallback label, the average hip y is not below
  the average knee y. The other way round: when the average hip y is below the average knee
  y, the Bending-Down condition or the Hands-on-Hips condition holds, so one of the ten
  conditions holds and the fallback label is not returned.
\<close>

theorem fallback_needs_hips_not_above_knees:
  "joints_of lm = Inr j \<Longrightarrow>
     (detect_pose lm = Inr ''Unknown Pose'' \<longrightarrow> avg_hip_y j \<ge> avg_knee_y j)
   \<and> (avg_hip_y j < avg_knee_y j \<longrightarrow>
        (bending_down j \<or> hands_on_hips j) \<and> \<not> unmatched j
        \<and> detect_pose lm \<noteq> Inr ''Unknown Pose'')"
proof -
  assume j: "joints_of lm = Inr j"
  note cover = hips_above_knees_matched [of j]
  have fb: "first_match j = ''Unknown Pose'' \<longleftrightarrow> unmatched j"
    by (simp add: first_match_def unmatched_def)
  have un: "unmatched j \<Longrightarrow> \<not> bending_down j \<and> \<not> hands_on_hips j"
    by (simp add: unmatched_def)
  have ge: "unmatched j \<Longrightarrow> avg_hip_y j \<ge> avg_knee_y j"
    using cover un by (cases "avg_hip_y j < avg_knee_y j") auto
  show ?thesis
    using cover un ge by (auto simp: detect_pose_first_match [OF j] fb)
qed

theorem fallback_needs_hips_not_above_knees_witness:
  "detect_pose (body_of idle) = Inr ''Unknown Pose'' \<and> avg_hip_y idle \<ge> avg_knee_y idle
   \<and> avg_hip_y upright < avg_knee_y upright \<and> hands_on_hips upright
   \<and> detect_pose (body_of upright) \<noteq> Inr ''Unknown Pose''"
proof -
  have a: "detect_pose (body_of idle) = Inr ''Unknown Pose''"
    using idle_unmatched by (simp add: detect_pose_body_of first_match_def unmatched_def)
  have b: "avg_hip_y upright < avg_knee_y upright"
    by (simp add: conds upright_def pt_def)
  have c: "hands_on_hips upright"
    by (simp add: conds upright_def pt_def)
  from fallback_needs_hips_not_above_knees [OF joints_of_body_of, of idle]
    fallback_needs_hips_not_above_knees [OF joints_of_body_of, of upright] a b c
  show ?thesis by blast
qed

section \<open>The neutral case\<close>

text \<open>
  Claim C5, as stated: there is a neutral landmark set, with wrists below elbows, elbows
  below shoulders, hips above knees and shoulders above hips, on which none of the ten
  conditions holds. The landmark set \<open>upright\<close> is neutral in this sense with margins of 0.2
  and more, its Hands-on-Hips condition (line 108) holds and it is classified Hands on Hips;
  and no neutral landmark set at all escapes the ten conditions, because with the hips
  above the knees line 96 or line 108 holds.
\<close>

theorem neutral_spec_counterexample:
  "neutral_spec upright \<and> hands_on_hips upright
   \<and> detect_pose (body_of upright) = Inr ''Hands on Hips''
   \<and> \<not> (\<exists>j. neutral_spec j \<and> unmatched j)"
proof -
  have a: "neutral_spec upright"
    by (simp add: neutral_spec_def conds upright_def pt_def)
  have b: "hands_on_hips upright"
    by (simp add: conds upright_def pt_def)
  have c: "detect_pose (body_of upright) = Inr ''Hands on Hips''"
    by (simp add: detect_pose_body_of first_match_def conds upright_def pt_def)
  have d: "\<not> (\<exists>j. neutral_spec j \<and> unmatched j)"
    using hips_above_knees_matched by (auto simp: neutral_spec_def unmatched_def)
  from a b c d show ?thesis by blast
qed

lemma idle_neutral_level: "neutral_level idle"
  by (simp add: neutral_level_def conds idle_def pt_def)

text \<open>
  Claim C5, amended: there is a neutral landmark set, with wrists below elbows, elbows below
  shoulders, shoulders above hips, and the hips level with the knees (average hip y equal
  to average knee y), on which none of the ten conditions holds, and on every such landmark
  set the classifier returns the fallback label \<^verbatim>\<open>Unknown Pose\<close>.
\<close>

theorem neutral_level_fallback:
  "(\<exists>lm j. joints_of lm = Inr j \<and> neutral_level j \<and> unmatched j)
   \<and> (\<forall>lm j. joints_of lm = Inr j \<and> neutral_level j \<and> unmatched j
        \<longrightarrow> detect_pose lm = Inr ''Unknown Pose'')"
proof
  show "\<exists>lm j. joints_of lm = Inr j \<and> neutral_level j \<and> unmatched j"
    using joints_of_body_of idle_neutral_level idle_unmatched by blast
  show "\<forall>lm j. joints_of lm = Inr j \<and> neutral_level j \<and> unmatched j
        \<longrightarrow> detect_pose lm = Inr ''Unknown Pose''"
    by (simp add: detect_pose_first_match first_match_def unmatched_def)
qed

theorem neutral_level_fallback_witness:
  "joints_of (body_of idle) = Inr idle \<and> neutral_level idle \<and> unmatched idle
   \<and> detect_pose (body_of idle) = Inr ''Unknown Pose''"
  using neutral_level_fallback joints_of_body_of [of idle] idle_neutral_level idle_unmatched
  by blast

section \<open>What the classifier reads\<close>

lemma agree_sym: "agree lm lm' \<Longrightarrow> agree lm' lm"
  by (simp add: agree_def)

lemma agree_present: "agree lm lm' \<Longrightarrow> present lm \<Longrightarrow> present lm'"
  unfolding agree_def classifier_joints_def present_def
  by (metis list.set_intros(1,2) map_option_is_None)

lemma agree_xy:
  "agree lm lm' \<Longrightarrow> J \<in> set classifier_joints \<Longrightarrow> landmark lm J = Some p
     \<Longrightarrow> landmark lm' J = Some p' \<Longrightarrow> x p = x p' \<and> y p = y p'"
  by (auto simp: agree_def xy_def)

lemma first_match_xy:
  assumes "x (left_wrist j) = x (left_wrist j') \<and> y (left_wrist j) = y (left_wrist j')"
    and "x (right_wrist j) = x (right_wrist j') \<and> y (right_wrist j) = y (right_wrist j')"
    and "x (left_elbow j) = x (left_elbow j') \<and> y (left_elbow j) = y (left_elbow j')"
    and "x (right_elbow j) = x (right_elbow j') \<and> y (right_elbow j) = y (right_elbow j')"
    and "x (left_shoulder j) = x (left_shoulder j') \<and> y (left_shoulder j) = y (left_shoulder j')"
    and "x (right_shoulder j) = x (right_shoulder j') \<and> y (right_shoulder j) = y (right_shoulder j')"
    and "x (left_hip j) = x (left_hip j') \<and> y (left_hip j) = y (left_hip j')"
    and "x (right_hip j) = x (right_hip j') \<and> y (right_hip j) = y (right_hip j')"
    and "x (left_knee j) = x (left_knee j') \<and> y (left_knee j) = y (left_knee j')"
    and "x (right_knee j) = x (right_knee j') \<and> y (right_knee j) = y (right_knee j')"
  shows "first_match j = first_match j'"
  unfolding first_match_def conds by (simp only: assms)

text \<open>
  Claim C10. Two landmark lists that agree on the x and y of the ten joints of the
  classifier get the same result from \<open>detect_pose\<close>, whatever their visibility scores and
  whatever their other joints are.
\<close>

theorem detect_pose_depends_on_xy:
  "agree lm lm' \<Longrightarrow> detect_pose lm = detect_pose lm'"
proof -
  assume a: "agree lm lm'"
  show ?thesis
  proof (cases "present lm")
    case True
    then obtain j where j: "joints_of lm = Inr j"
      using joints_of_present by blast
    from True a have "present lm'" by (rule agree_present [rotated])
    then obtain j' where j': "joints_of lm' = Inr j'"
      using joints_of_present by blast
    have mem: "LEFT_WRIST \<in> set classifier_joints" "RIGHT_WRIST \<in> set classifier_joints"
      "LEFT_ELBOW \<in> set classifier_joints" "RIGHT_ELBOW \<in> set classifier_joints"
      "LEFT_SHOULDER \<in> set classifier_joints" "RIGHT_SHOULDER \<in> set classifier_joints"
      "LEFT_HIP \<in> set classifier_joints" "RIGHT_HIP \<in> set classifier_joints"
      "LEFT_KNEE \<in> set classifier_joints" "RIGHT_KNEE \<in> set classifier_joints"
      by (simp_all add: classifier_joints_def)
    from j have l:
      "landmark lm LEFT_WRIST = Some (left_wrist j)" "landmark lm RIGHT_WRIST = Some (right_wrist j)"
      "landmark lm LEFT_ELBOW = Some (left_elbow j)" "landmark lm RIGHT_ELBOW = Some (right_elbow j)"
      "landmark lm LEFT_SHOULDER = Some (left_shoulder j)"
      "landmark lm RIGHT_SHOULDER = Some (right_shoulder j)"
      "landmark lm LEFT_HIP = Some (left_hip j)" "landmark lm RIGHT_HIP = Some (right_hip j)"
      "landmark lm LEFT_KNEE = Some (left_knee j)" "landmark lm RIGHT_KNEE = Some (right_knee j)"
      by (simp_all add: joints_of_Inr_iff)
    from j' have l':
      "landmark lm' LEFT_WRIST = Some (left_wrist j')" "landmark lm' RIGHT_WRIST = Some (right_wrist j')"
      "landmark lm' LEFT_ELBOW = Some (left_elbow j')" "landmark lm' RIGHT_ELBOW = Some (right_elbow j')"
      "landmark lm' LEFT_SHOULDER = Some (left_shoulder j')"
      "landmark lm' RIGHT_SHOULDER = Some (right_shoulder j')"
      "landmark lm' LEFT_HIP = Some (left_hip j')" "landmark lm' RIGHT_HIP = Some (right_hip j')"
      "landmark lm' LEFT_KNEE = Some (left_knee j')" "landmark lm' RIGHT_KNEE = Some (right_knee j')"
      by (simp_all add: joints_of_Inr_iff)
    have "first_match j = first_match j'"
      by (rule first_match_xy)
        (rule agree_xy [OF a mem(1) l(1) l'(1)], rule agree_xy [OF a mem(2) l(2) l'(2)],
         rule agree_xy [OF a mem(3) l(3) l'(3)], rule agree_xy [OF a mem(4) l(4) l'(4)],
         rule agree_xy [OF a mem(5) l(5) l'(5)], rule agree_xy [OF a mem(6) l(6) l'(6)],
         rule agree_xy [OF a mem(7) l(7) l'(7)], rule agree_xy [OF a mem(8) l(8) l'(8)],
         rule agree_xy [OF a mem(9) l(9) l'(9)], rule agree_xy [OF a mem(10) l(10) l'(10)])
    then show ?thesis
      by (simp add: detect_pose_first_match [OF j] detect_pose_first_match [OF j'])
  next
    case False
    then obtain e where e: "joints_of lm = Inl e"
      using joints_of_Inr_present by (cases "joints_of lm") auto
    from False a have "\<not> present lm'"
      using agree_present [OF agree_sym] by blast
    then obtain e' where e': "joints_of lm' = Inl e'"
      using joints_of_Inr_present by (cases "joints_of lm'") auto
    have "e = e'" by (cases e, cases e') simp
    then show ?thesis
      by (simp add: detect_pose_absent [OF e] detect_pose_absent [OF e'])
  qed
qed

theorem detect_pose_depends_on_xy_witness:
  "agree (body_of idle) idle_unseen
   \<and> landmark (body_of idle) NOSE = Some (pt 0.5 0.5) \<and> landmark idle_unseen NOSE = Some (pt 0 1)
   \<and> map_option visibility (landmark (body_of idle) LEFT_WRIST) = Some 1
   \<and> map_option visibility (landmark idle_unseen LEFT_WRIST) = Some 0
   \<and> detect_pose (body_of idle) = detect_pose idle_unseen"
proof -
  have a: "agree (body_of idle) idle_unseen"
    by (simp add: agree_def classifier_joints_def idle_unseen_def body_of_def xy_def)
  have b: "landmark (body_of idle) NOSE = Some (pt 0.5 0.5) \<and> landmark idle_unseen NOSE = Some (pt 0 1)
   \<and> map_option visibility (landmark (body_of idle) LEFT_WRIST) = Some 1
   \<and> map_option visibility (landmark idle_unseen LEFT_WRIST) = Some 0"
    by (simp add: idle_unseen_def body_of_def idle_def pt_def)
  from detect_pose_depends_on_xy [OF a] a b show ?thesis by blast
qed

section \<open>A failed read of the camera\<close>

lemma mainloop_idle:
  "after_queue s = 0 \<Longrightarrow> mainloop cap_read pose_process n s = s"
  by (induction n) (simp_all add: fire_def)

text \<open>
  Claim C8 says that after a failed read the frame loop goes on and reads again at the next
  tick. In the source, line 116 returns before line 162 registers the next call: when the
  read fails and no other call is registered, \<open>update_frame\<close> counts the read, shows
  nothing, registers nothing, and from then on the event loop never runs it again, for any
  number of further turns.
\<close>

theorem failed_read_ends_loop:
  "cap_read (reads s) = None \<Longrightarrow> after_queue s = 0 \<Longrightarrow>
     update_frame cap_read pose_process s = Inr (s\<lparr>reads := reads s + 1\<rparr>)
   \<and> (\<forall>n. mainloop cap_read pose_process n (s\<lparr>reads := reads s + 1\<rparr>) = s\<lparr>reads := reads s + 1\<rparr>)"
  by (simp add: update_frame_def mainloop_idle)

theorem failed_read_ends_loop_witness:
  "camera 1 = None
   \<and> update_frame camera nobody
       \<lparr>reads = 1, after_queue = 0,
        shown = [\<lparr>image = 0, mirrored = True, skeleton = False, texts = []\<rparr>]\<rparr>
     = Inr \<lparr>reads = 2, after_queue = 0,
        shown = [\<lparr>image = 0, mirrored = True, skeleton = False, texts = []\<rparr>]\<rparr>
   \<and> main camera nobody 5
     = Inr \<lparr>reads = 2, after_queue = 0,
        shown = [\<lparr>image = 0, mirrored = True, skeleton = False, texts = []\<rparr>]\<rparr>"
proof -
  let ?f = "\<lparr>image = 0, mirrored = True, skeleton = False, texts = []\<rparr>"
  let ?s = "\<lparr>reads = 1, after_queue = 0, shown = [?f]\<rparr>"
  have c: "camera (reads ?s) = None" by (simp add: camera_def)
  have q: "after_queue ?s = 0" by simp
  note t = failed_read_ends_loop [where cap_read = camera and s = ?s and pose_process = nobody, OF c q]
  have first: "update_frame camera nobody \<lparr>reads = 0, after_queue = 0, shown = []\<rparr>
      = Inr \<lparr>reads = 1, after_queue = 1, shown = [?f]\<rparr>"
    by (simp add: update_frame_def camera_def nobody_def and_then_def)
  have five: "(5::nat) = Suc 4" by simp
  have "main camera nobody 5 = Inr \<lparr>reads = 2, after_queue = 0, shown = [?f]\<rparr>"
    using t unfolding main_def first and_then_simps five mainloop.simps
    by (simp add: fire_def)
  with t c show ?thesis by simp
qed

end
